theory Spec2Isabelle
  imports Complex_Main
begin

section \<open>Numbers and vectors\<close>

text \<open>
  The TypeScript \<^verbatim>\<open>number\<close> is modelled by \<^typ>\<open>real\<close>: the arithmetic of the brush
  engine is read as exact arithmetic. Rounding, infinities and NaN are outside the model:
  a division by zero, which gives an infinity or NaN in the source, has no counterpart
  here, and the results that rest on a quotient take its divisor to be non-zero. What
  a long run of steps does in the source (whether the tip comes to rest, or the loop
  of \<^verbatim>\<open>TickWhile\<close> ends) is decided by rounding and overflow and is not stated here.
\<close>

text \<open>
  Modelled from the spec: \<^verbatim>\<open>Helpers.Vector2\<close> is imported by DynaDraw.ts but its
  source file is not part of the sources at hand. The specification gives it as a pair
  \<^verbatim>\<open>(x: float, y: float)\<close> with the operations add, subtract, scale, normal
  (perpendicular unit vector), squared magnitude, magnitude and distance-to, mutating in
  place. The functions below are the values those methods compute; the in-place update of
  the receiver is written out at each call site of the brush tip. \<^verbatim>\<open>clone()\<close> copies the
  value and is the identity here.
\<close>

datatype Vector2 = Vector2 (getX: real) (getY: real)

text \<open>Modelled from the spec: \<^verbatim>\<open>add\<close>, the sum of the receiver and the argument.\<close>

definition add :: "Vector2 \<Rightarrow> Vector2 \<Rightarrow> Vector2" where
  "add a b = Vector2 (getX a + getX b) (getY a + getY b)"

text \<open>Modelled from the spec: \<^verbatim>\<open>subtract\<close>, the receiver minus the argument.\<close>

definition subtract :: "Vector2 \<Rightarrow> Vector2 \<Rightarrow> Vector2" where
  "subtract a b = Vector2 (getX a - getX b) (getY a - getY b)"

text \<open>Modelled from the spec: \<^verbatim>\<open>scale\<close>, the receiver times a number.\<close>

definition scale :: "Vector2 \<Rightarrow> real \<Rightarrow> Vector2" where
  "scale a c = Vector2 (getX a * c) (getY a * c)"

text \<open>Modelled from the spec: \<^verbatim>\<open>getSizeSq\<close>, the squared magnitude.\<close>

definition getSizeSq :: "Vector2 \<Rightarrow> real" where
  "getSizeSq a = getX a * getX a + getY a * getY a"

text \<open>Modelled from the spec: \<^verbatim>\<open>getSize\<close>, the magnitude.\<close>

definition getSize :: "Vector2 \<Rightarrow> real" where
  "getSize a = sqrt (getSizeSq a)"

text \<open>Modelled from the spec: \<^verbatim>\<open>distanceTo\<close>, the magnitude of the difference.\<close>

definition distanceTo :: "Vector2 \<Rightarrow> Vector2 \<Rightarrow> real" where
  "distanceTo a b = getSize (subtract a b)"

text \<open>
  Modelled from the spec: \<^verbatim>\<open>getNormal\<close>, the perpendicular of the vector scaled to unit
  length. The specification does not say which of the two perpendiculars is taken; no
  result below depends on the choice.
\<close>

definition getNormal :: "Vector2 \<Rightarrow> Vector2" where
  "getNormal a = scale (Vector2 (- getY a) (getX a)) (1 / getSize a)"

section \<open>Brush profiles\<close>

text \<open>\<^verbatim>\<open>class BrushInstance\<close>: mass, friction and size of one brush, read-only.\<close>

datatype BrushInstance = BrushInstance (Mass: real) (Friction: real) (Size: real)

text \<open>\<^verbatim>\<open>const enum Threshold { Force = 1, Velocity = 1 }\<close>\<close>

definition Threshold_Force :: real where
  "Threshold_Force = 1"

definition Threshold_Velocity :: real where
  "Threshold_Velocity = 1"

section \<open>The path sink\<close>

text \<open>
  \<^verbatim>\<open>Path\<close> is an object of the host: the brush engine only calls its methods
  \<^verbatim>\<open>StartPath\<close>, \<^verbatim>\<open>InitPath\<close>, \<^verbatim>\<open>ExtendPath\<close> and \<^verbatim>\<open>Draw\<close> and never reads
  it back. A path of the model is the list of the calls it has received, oldest first,
  together with the set of calls on which its implementation throws.
\<close>

datatype PathCall =
    StartPathCall Vector2 real
  | InitPathCall Vector2 Vector2
  | ExtendPathCall Vector2 Vector2
  | DrawCall

datatype error = TypeError | HostError

record Path =
  received :: "PathCall list"
  rejects :: "PathCall \<Rightarrow> bool"

text \<open>
  A method call on the path: the call is received in any case; the result says whether
  the method threw.
\<close>

definition path_call :: "PathCall \<Rightarrow> Path \<Rightarrow> error option \<times> Path" where
  "path_call c p =
     (if rejects p c then Some HostError else None, p\<lparr>received := received p @ [c]\<rparr>)"

section \<open>The brush tip\<close>

text \<open>
  \<^verbatim>\<open>class BrushTip\<close>. A value of this record is a tip on which \<^verbatim>\<open>Reset\<close> has run, so
  that the fields \<^verbatim>\<open>Reset\<close> assigns are defined.

  \<^verbatim>\<open>getRadius\<close> assigns \<^verbatim>\<open>this.previousPosition = this.position\<close> without a clone, and
  \<^verbatim>\<open>ApplyForce\<close> updates the position object in place. These two fields are therefore
  references into a store of vector objects (\<open>cells\<close>, with \<open>nextRef\<close> the next unused
  address). Every other vector field holds an object that no second field ever refers to
  (it is assigned from a \<^verbatim>\<open>clone()\<close>, a \<^verbatim>\<open>new Vector2\<close> or \<^verbatim>\<open>getNormal()\<close>), so it is
  kept by value and an in-place update of it is an update of the field.
  \<open>acceleration\<close> and \<open>angle\<close> are optional: the source sets the former to
  \<^verbatim>\<open>null\<close>, and the latter is undefined until the first step that passes both thresholds.
  The \<^verbatim>\<open>timer\<close> of the constructor is never read and is left out.
\<close>

type_synonym ref = nat

record BrushTip =
  cells :: "ref \<Rightarrow> Vector2"
  nextRef :: ref
  position :: ref
  startPosition :: Vector2
  velocity :: Vector2
  acceleration :: "Vector2 option"
  angle :: "Vector2 option"
  brush :: BrushInstance
  firstSegment :: bool
  previousPosition :: ref
  previousPressure :: real
  mousePosition :: Vector2
  calculateSpeed :: bool

text \<open>The vector a reference field currently points to.\<close>

definition positionValue :: "BrushTip \<Rightarrow> Vector2" where
  "positionValue t = cells t (position t)"

definition previousPositionValue :: "BrushTip \<Rightarrow> Vector2" where
  "previousPositionValue t = cells t (previousPosition t)"

text \<open>
  \<^verbatim>\<open>Reset(position, brush)\<close>: the two clones that become \<open>position\<close> and
  \<open>previousPosition\<close> are two new objects.
\<close>

definition Reset :: "BrushTip \<Rightarrow> Vector2 \<Rightarrow> BrushInstance \<Rightarrow> BrushTip" where
  "Reset t pos b =
     (let n = nextRef t in
      t\<lparr>brush := b,
        cells := (cells t)(n := pos, Suc n := pos),
        nextRef := n + 2,
        position := n,
        startPosition := pos,
        previousPosition := Suc n,
        previousPressure := - 1,
        mousePosition := pos,
        acceleration := Some (Vector2 0 0),
        velocity := Vector2 0 0,
        firstSegment := True\<rparr>)"

text \<open>
  \<^verbatim>\<open>ApplyForce(mouse, elapsedFrames)\<close> returns the squared distance moved and the updated
  tip. The argument \<open>mouse\<close> is only cloned, so it is passed by value.
\<close>

definition ApplyForce :: "BrushTip \<Rightarrow> Vector2 \<Rightarrow> real \<Rightarrow> real \<times> BrushTip" where
  "ApplyForce t mouse elapsedFrames =
     (let force = subtract mouse (positionValue t) in
      if getSizeSq force < Threshold_Force then (0, t)
      else
        let acc = scale force (1 / Mass (brush t));
            v1 = add (velocity t) acc;
            t1 = t\<lparr>acceleration := Some acc, velocity := v1\<rparr>
        in
        if getSizeSq v1 < Threshold_Velocity then (0, t1)
        else
          let v2 = scale v1 ((1 - Friction (brush t)) * elapsedFrames);
              p2 = add (positionValue t1) v2;
              t2 = t1\<lparr>mousePosition := mouse,
                      acceleration := None,
                      angle := Some (getNormal v1),
                      velocity := v2,
                      cells := (cells t1)(position t1 := p2)\<rparr>
          in (getSizeSq v2, t2))"

text \<open>\<^verbatim>\<open>interpolatePressure(mousePressure)\<close>\<close>

definition interpolatePressure :: "BrushTip \<Rightarrow> real \<Rightarrow> real" where
  "interpolatePressure t mousePressure =
     (let d1 = distanceTo (positionValue t) (previousPositionValue t);
          d2 = distanceTo (positionValue t) (mousePosition t)
      in if d1 = 0 \<and> d2 = 0 then mousePressure
         else (d1 / (d1 + d2)) * (mousePressure - previousPressure t) + previousPressure t)"

text \<open>\<^verbatim>\<open>speedFactor(speed)\<close>\<close>

definition speedFactor :: "real \<Rightarrow> real" where
  "speedFactor speed = max (1 - speed) 0.4"

text \<open>
  \<^verbatim>\<open>getRadius(pressure, speed)\<close> returns the radius and the updated tip. The last but one
  assignment copies the reference, not the vector.
\<close>

definition getRadius :: "BrushTip \<Rightarrow> real \<Rightarrow> real \<Rightarrow> real \<times> BrushTip" where
  "getRadius t pressure speed =
     (let t1 = (if previousPressure t < 0 then t\<lparr>previousPressure := pressure\<rparr> else t);
          interpolatedPressure = interpolatePressure t1 pressure;
          radius = speedFactor speed * Size (brush t1) * interpolatedPressure / 2
      in (radius, t1\<lparr>previousPosition := position t1,
                     previousPressure := interpolatedPressure\<rparr>))"

text \<open>
  \<^verbatim>\<open>Draw(path, pressure)\<close> returns the exception it ends with, if any, and the tip and the
  path as they are at that moment. Scaling an undefined \<open>angle\<close> is a TypeError.
\<close>

definition Draw :: "BrushTip \<Rightarrow> Path \<Rightarrow> real \<Rightarrow> error option \<times> BrushTip \<times> Path" where
  "Draw t path pressure =
     (let relativeSpeed =
            (if calculateSpeed t
             then getSize (velocity t) / (Size (brush t) * Size (brush t)) else 0);
          (width, t1) = getRadius t pressure relativeSpeed
      in (case angle t1 of
           None \<Rightarrow> (Some TypeError, t1, path)
         | Some a \<Rightarrow>
            (let a1 = scale a width;
                 t2 = t1\<lparr>angle := Some a1\<rparr>;
                 (e1, t3, p1) =
                   (if firstSegment t2
                    then
                      (case path_call (InitPathCall (add (startPosition t2) a1)
                                                    (subtract (startPosition t2) a1)) path of
                         (Some e, p) \<Rightarrow> (Some e, t2, p)
                       | (None, p) \<Rightarrow> (None, t2\<lparr>firstSegment := False\<rparr>, p))
                    else (None, t2, path))
             in (case e1 of
                  Some e \<Rightarrow> (Some e, t3, p1)
                | None \<Rightarrow>
                    (case path_call (ExtendPathCall (add (positionValue t3) a1)
                                                    (subtract (positionValue t3) a1)) p1 of
                       (Some e, p2) \<Rightarrow> (Some e, t3, p2)
                     | (None, p2) \<Rightarrow>
                         (case path_call DrawCall p2 of (e3, p3) \<Rightarrow> (e3, t3, p3)))))))"

text \<open>\<^verbatim>\<open>BrushTip.StartPath(path, pt, pressure)\<close>\<close>

definition StartPath :: "BrushTip \<Rightarrow> Path \<Rightarrow> Vector2 \<Rightarrow> real \<Rightarrow> error option \<times> BrushTip \<times> Path" where
  "StartPath t path pt pressure =
     (let (radius, t1) = getRadius t pressure 0 in
      case path_call (StartPathCall pt radius) path of (e, p) \<Rightarrow> (e, t1, p))"

text \<open>
  \<^verbatim>\<open>new BrushTip(calculateSpeed, timer)\<close>: the constructor assigns nothing but its
  parameters. The record has no value for an unassigned field, so the fields that
  \<^verbatim>\<open>Reset\<close> assigns hold placeholders here; this value is only ever handed to \<open>Reset\<close>,
  which overwrites every one of them.
\<close>

definition newBrushTip :: "bool \<Rightarrow> BrushTip" where
  "newBrushTip cs =
     \<lparr>cells = (\<lambda>_. Vector2 0 0), nextRef = 0, position = 0,
      startPosition = Vector2 0 0, velocity = Vector2 0 0, acceleration = None,
      angle = None, brush = BrushInstance 0 0 0, firstSegment = False,
      previousPosition = 0, previousPressure = 0, mousePosition = Vector2 0 0,
      calculateSpeed = cs\<rparr>"

text \<open>
  A stroke as the frame loop drives it: for each step \<open>(mouse, elapsedFrames, pressure)\<close>
  one \<^verbatim>\<open>ApplyForce\<close> and then one \<^verbatim>\<open>Draw\<close>. \<open>strokeMoves\<close> says that every
  \<^verbatim>\<open>ApplyForce\<close> of the stroke returned a non-zero distance; \<open>strokeDraws\<close> runs the
  stroke and stops at the first exception.
\<close>

fun strokeMoves :: "BrushTip \<Rightarrow> Path \<Rightarrow> (Vector2 \<times> real \<times> real) list \<Rightarrow> bool" where
  "strokeMoves t p [] = True"
| "strokeMoves t p ((mouse, elapsedFrames, pressure) # steps) =
     (case ApplyForce t mouse elapsedFrames of
        (d, t1) \<Rightarrow> d \<noteq> 0 \<and>
          (case Draw t1 p pressure of (e, t2, p2) \<Rightarrow> strokeMoves t2 p2 steps))"

fun strokeDraws ::
  "BrushTip \<Rightarrow> Path \<Rightarrow> (Vector2 \<times> real \<times> real) list \<Rightarrow> error option \<times> BrushTip \<times> Path" where
  "strokeDraws t p [] = (None, t, p)"
| "strokeDraws t p ((mouse, elapsedFrames, pressure) # steps) =
     (case ApplyForce t mouse elapsedFrames of
        (d, t1) \<Rightarrow>
          (case Draw t1 p pressure of
             (Some e, t2, p2) \<Rightarrow> (Some e, t2, p2)
           | (None, t2, p2) \<Rightarrow> strokeDraws t2 p2 steps))"

text \<open>The method a received call belongs to, without its arguments.\<close>

datatype PathMethod = StartPathM | InitPathM | ExtendPathM | DrawM

fun methodOf :: "PathCall \<Rightarrow> PathMethod" where
  "methodOf (StartPathCall pt r) = StartPathM"
| "methodOf (InitPathCall a b) = InitPathM"
| "methodOf (ExtendPathCall a b) = ExtendPathM"
| "methodOf DrawCall = DrawM"

section \<open>The simulator\<close>

text \<open>
  \<^verbatim>\<open>Helpers.CursorState\<close>, of which the simulator reads \<^verbatim>\<open>X\<close>, \<^verbatim>\<open>Y\<close> and
  \<^verbatim>\<open>Pressure\<close>.
\<close>

datatype CursorState = CursorState (X: real) (Y: real) (Pressure: real)

text \<open>The callbacks handed to \<^verbatim>\<open>requestAnimationFrame\<close>.\<close>

datatype Callback = FirstTickCallback | TickCallback | TickWhileCallback

text \<open>
  \<^verbatim>\<open>class DynaDraw\<close>. Fields whose names the brush tip also has carry the suffix
  \<open>_DynaDraw\<close>. \<open>cursor\<close> is \<open>None\<close> for the tip as constructed, before its first
  \<^verbatim>\<open>Reset\<close>. \<open>currentBrushSize\<close> is the \<^verbatim>\<open>Size\<close> of the selected \<^verbatim>\<open>UI.BrushSize\<close>,
  \<open>None\<close> until \<^verbatim>\<open>SetBrushSize\<close> is called. The path factory is a function of the host
  that may throw and may answer differently each time: \<open>pathFactory d n\<close> is the outcome
  of its call number \<open>n\<close>, and \<open>factoryCalls\<close> counts the calls made. \<open>console\<close> is
  what \<^verbatim>\<open>console.log\<close> has been given, and \<open>scheduled\<close> what
  \<^verbatim>\<open>requestAnimationFrame\<close> has been given.
\<close>

record DynaDraw =
  cursor :: "BrushTip option"
  position_DynaDraw :: "Vector2 option"
  pressure_DynaDraw :: "real option"
  path_DynaDraw :: "Path option"
  minMass :: real
  maxMass :: real
  minFriction :: real
  maxFriction :: real
  currentBrushSize :: "real option"
  brushes :: "real \<rightharpoonup> BrushInstance"
  pathFactory :: "nat \<Rightarrow> error + Path"
  factoryCalls :: nat
  slowSimulation :: bool
  minBrushSize :: real
  maxBrushSize :: real
  lastState :: "CursorState option"
  lastAnimationTime :: "real option"
  oneFrame :: real
  console :: "error list"
  scheduled :: "Callback list"

definition SetBrushSize :: "DynaDraw \<Rightarrow> real \<Rightarrow> DynaDraw" where
  "SetBrushSize d brushSize = d\<lparr>currentBrushSize := Some brushSize\<rparr>"

definition interpolateMass :: "DynaDraw \<Rightarrow> real \<Rightarrow> real" where
  "interpolateMass d brushSize =
     minMass d + (maxMass d - minMass d) * (brushSize - minBrushSize d)
                   / (maxBrushSize d - minBrushSize d)"

definition interpolateFriction :: "DynaDraw \<Rightarrow> real \<Rightarrow> real" where
  "interpolateFriction d brushSize =
     maxFriction d - (maxFriction d - minFriction d) * (brushSize - minBrushSize d)
                       / (maxBrushSize d - minBrushSize d)"

text \<open>\<^verbatim>\<open>GetBrush(brushSize)\<close> returns the profile and the simulator with its cache.\<close>

definition GetBrush :: "DynaDraw \<Rightarrow> real \<Rightarrow> BrushInstance \<times> DynaDraw" where
  "GetBrush d brushSize =
     (case brushes d brushSize of
        None \<Rightarrow>
          (let b = BrushInstance (interpolateMass d brushSize)
                                 (interpolateFriction d brushSize) brushSize
           in (b, d\<lparr>brushes := (brushes d)(brushSize \<mapsto> b)\<rparr>))
      | Some b \<Rightarrow> (b, d))"

text \<open>
  The constructor. It has no statement that throws; the result is a sum so that a
  rejected configuration would have a value.
\<close>

definition DynaDraw_constructor ::
  "(nat \<Rightarrow> error + Path) \<Rightarrow> bool \<Rightarrow> real \<Rightarrow> real \<Rightarrow> error + DynaDraw" where
  "DynaDraw_constructor pathFactory' slowSimulation' minBrushSize' maxBrushSize' =
     Inr \<lparr>cursor = None,
          position_DynaDraw = None,
          pressure_DynaDraw = None,
          path_DynaDraw = None,
          minMass = 1,
          maxMass = 10,
          minFriction = 0.4,
          maxFriction = 0.6,
          currentBrushSize = None,
          brushes = Map.empty,
          pathFactory = pathFactory',
          factoryCalls = 0,
          slowSimulation = slowSimulation',
          minBrushSize = minBrushSize',
          maxBrushSize = maxBrushSize',
          lastState = None,
          lastAnimationTime = None,
          oneFrame = 1000 / 60,
          console = [],
          scheduled = [if slowSimulation' then FirstTickCallback else TickWhileCallback]\<rparr>"

text \<open>
  \<^verbatim>\<open>DynaDraw.StartPath(position, pressure)\<close>. Reading \<^verbatim>\<open>Size\<close> of an unset
  \<^verbatim>\<open>currentBrushSize\<close> is a TypeError, raised while the arguments of \<^verbatim>\<open>Reset\<close> are
  evaluated; calling a method of an unset path is a TypeError, raised before the
  argument \<^verbatim>\<open>getRadius(pressure, 0)\<close> is evaluated.
\<close>

definition StartPath_DynaDraw :: "DynaDraw \<Rightarrow> Vector2 \<Rightarrow> real \<Rightarrow> error option \<times> DynaDraw" where
  "StartPath_DynaDraw d pos pressure =
     (case currentBrushSize d of
        None \<Rightarrow> (Some TypeError, d)
      | Some brushSize \<Rightarrow>
          (case GetBrush d brushSize of
             (b, d1) \<Rightarrow>
              (let t = Reset (case cursor d1 of None \<Rightarrow> newBrushTip True | Some t0 \<Rightarrow> t0) pos b;
                   d2 = d1\<lparr>cursor := Some t,
                           position_DynaDraw := Some pos,
                           pressure_DynaDraw := Some pressure\<rparr>
               in (case path_DynaDraw d2 of
                    None \<Rightarrow> (Some TypeError, d2)
                  | Some p \<Rightarrow>
                      (case StartPath t p pos pressure of
                         (e, t1, p1) \<Rightarrow>
                           (e, d2\<lparr>cursor := Some t1, path_DynaDraw := Some p1\<rparr>))))))"

definition NextPoint :: "DynaDraw \<Rightarrow> Vector2 \<Rightarrow> real \<Rightarrow> DynaDraw" where
  "NextPoint d pos pressure =
     d\<lparr>position_DynaDraw := Some pos, pressure_DynaDraw := Some pressure\<rparr>"

definition EndPath :: "DynaDraw \<Rightarrow> Vector2 \<Rightarrow> real \<Rightarrow> DynaDraw" where
  "EndPath d pos pressure = d\<lparr>position_DynaDraw := Some pos\<rparr>"

text \<open>
  The body of the \<^verbatim>\<open>try\<close> block of \<^verbatim>\<open>ObserveCursorMovement\<close>: the exception it ends
  with, if any, and the simulator as it is at that moment. The sample is optional, a
  missing one being a TypeError at \<^verbatim>\<open>cursor.X\<close>. \<open>trigger p\<close> is the outcome of
  \<^verbatim>\<open>VideoEvents.trigger(VideoEventType.StartPath, p)\<close>, a call into the host.
\<close>

definition ObserveCursorMovement_try ::
  "(Path \<Rightarrow> error option) \<Rightarrow> DynaDraw \<Rightarrow> CursorState option \<Rightarrow> error option \<times> DynaDraw" where
  "ObserveCursorMovement_try trigger d cursor' =
     (case cursor' of
        None \<Rightarrow> (Some TypeError, d)
      | Some c \<Rightarrow>
          let nextPoint = Vector2 (X c) (Y c) in
          if Pressure c > 0 then
            if (case lastState d of None \<Rightarrow> True | Some l \<Rightarrow> Pressure l = 0) then
              (case pathFactory d (factoryCalls d) of
                 Inl e \<Rightarrow> (Some e, d\<lparr>factoryCalls := Suc (factoryCalls d)\<rparr>)
               | Inr p \<Rightarrow>
                  (let d1 = d\<lparr>factoryCalls := Suc (factoryCalls d), path_DynaDraw := Some p\<rparr>
                   in (case trigger p of
                        Some e \<Rightarrow> (Some e, d1)
                      | None \<Rightarrow> StartPath_DynaDraw d1 nextPoint (Pressure c))))
            else (None, NextPoint d nextPoint (Pressure c))
          else
            (case lastState d of
               None \<Rightarrow> (None, d)
             | Some l \<Rightarrow>
                 if Pressure l > 0 then (None, EndPath d nextPoint (Pressure l))
                 else (None, d)))"

text \<open>
  \<^verbatim>\<open>ObserveCursorMovement(cursor)\<close>: the \<^verbatim>\<open>catch\<close> clause logs the exception, and the
  assignment to \<^verbatim>\<open>lastState\<close> follows in either case. The first component is the
  exception that reaches the caller.
\<close>

definition ObserveCursorMovement ::
  "(Path \<Rightarrow> error option) \<Rightarrow> DynaDraw \<Rightarrow> CursorState option \<Rightarrow> error option \<times> DynaDraw" where
  "ObserveCursorMovement trigger d cursor' =
     (case ObserveCursorMovement_try trigger d cursor' of
        (Some err, d1) \<Rightarrow> (None, d1\<lparr>console := console d1 @ [err], lastState := cursor'\<rparr>)
      | (None, d1) \<Rightarrow> (None, d1\<lparr>lastState := cursor'\<rparr>))"

text \<open>
  The cache holds, at every size, the profile that \<open>GetBrush\<close> computes for that size.
\<close>

definition brushes_ok :: "DynaDraw \<Rightarrow> bool" where
  "brushes_ok d =
     (\<forall>s b. brushes d s = Some b \<longrightarrow>
        b = BrushInstance (interpolateMass d s) (interpolateFriction d s) s)"

section \<open>Results about the brush tip\<close>

lemmas vec_defs = add_def subtract_def scale_def getSizeSq_def

lemmas thr_defs = Threshold_Force_def Threshold_Velocity_def

lemmas tip_defs = ApplyForce_def Reset_def newBrushTip_def positionValue_def
  previousPositionValue_def Let_def

lemma positionValue_Reset:
  "positionValue (Reset t pos b) = pos"
  by (simp add: Reset_def positionValue_def Let_def)

text \<open>
  C1: a tip freshly Reset at (0,0) with a brush of mass 5 and friction 0.5 answers
  ApplyForce(target = (10,0), elapsedFrames = 1) with the squared distance 1, and then its
  velocity is (1,0) and its position is (1,0).
\<close>

theorem C1_scenario_A:
  "fst (ApplyForce (Reset t (Vector2 0 0) (BrushInstance 5 0.5 sz)) (Vector2 10 0) 1) = 1 \<and>
   velocity (snd (ApplyForce (Reset t (Vector2 0 0) (BrushInstance 5 0.5 sz)) (Vector2 10 0) 1))
     = Vector2 1 0 \<and>
   positionValue (snd (ApplyForce (Reset t (Vector2 0 0) (BrushInstance 5 0.5 sz)) (Vector2 10 0) 1))
     = Vector2 1 0"
  by (simp add: ApplyForce_def Reset_def positionValue_def Let_def vec_defs thr_defs)

subsection \<open>The thresholds of \<open>ApplyForce\<close>\<close>

lemma ApplyForce_step:
  assumes "1 \<le> getSizeSq (subtract mouse (positionValue t))"
    and "1 \<le> getSizeSq (add (velocity t)
                 (scale (subtract mouse (positionValue t)) (1 / Mass (brush t))))"
  shows "fst (ApplyForce t mouse f) =
           getSizeSq (scale (add (velocity t)
                               (scale (subtract mouse (positionValue t)) (1 / Mass (brush t))))
                        ((1 - Friction (brush t)) * f))"
    and "velocity (snd (ApplyForce t mouse f)) =
           scale (add (velocity t)
                    (scale (subtract mouse (positionValue t)) (1 / Mass (brush t))))
             ((1 - Friction (brush t)) * f)"
    and "positionValue (snd (ApplyForce t mouse f)) =
           add (positionValue t)
             (scale (add (velocity t)
                       (scale (subtract mouse (positionValue t)) (1 / Mass (brush t))))
                ((1 - Friction (brush t)) * f))"
  using assms by (simp_all add: ApplyForce_def Let_def thr_defs positionValue_def)

lemma ApplyForce_firstSegment:
  "firstSegment (snd (ApplyForce t mouse f)) = firstSegment t"
  by (simp add: ApplyForce_def Let_def)

lemma ApplyForce_refs:
  "position (snd (ApplyForce t mouse f)) = position t"
  "previousPosition (snd (ApplyForce t mouse f)) = previousPosition t"
  by (simp_all add: ApplyForce_def Let_def)

lemma ApplyForce_moved_angle:
  "fst (ApplyForce t mouse f) \<noteq> 0 \<Longrightarrow> \<exists>a. angle (snd (ApplyForce t mouse f)) = Some a"
  by (simp add: ApplyForce_def Let_def split: if_splits)

text \<open>
  C8: ApplyForce(target, elapsedFrames) with the target equal to the current position
  returns 0 and leaves position and velocity, indeed the whole tip, as they were.
\<close>

theorem C8_force_threshold_idempotence:
  "fst (ApplyForce t (positionValue t) elapsedFrames) = 0 \<and>
   positionValue (snd (ApplyForce t (positionValue t) elapsedFrames)) = positionValue t \<and>
   velocity (snd (ApplyForce t (positionValue t) elapsedFrames)) = velocity t \<and>
   snd (ApplyForce t (positionValue t) elapsedFrames) = t"
  by (simp add: ApplyForce_def subtract_def getSizeSq_def Threshold_Force_def)

text \<open>
  C10: when the force passes its threshold (\<open>|mouse - position|\<^sup>2 \<ge> 1\<close>) and the velocity
  does not (\<open>|velocity + force / mass|\<^sup>2 < 1\<close>, the mass not being 0), ApplyForce returns 0
  and has added
  \<open>force / mass\<close> to the velocity, while position, orientation and the last raw pointer
  position are as before. So a return of 0 does not mean an unchanged tip, and the
  velocity builds up over such calls: on a tip Reset at (0,0) with mass 10 and friction
  0.5, the first ApplyForce towards (5,0) returns 0 and leaves the velocity (0.5,0), and
  the second passes the velocity threshold and returns 0.25.
\<close>

theorem C10_velocity_accumulates_below_threshold:
  "(Mass (brush t) \<noteq> 0 \<longrightarrow>
    1 \<le> getSizeSq (subtract mouse (positionValue t)) \<longrightarrow>
    getSizeSq (add (velocity t)
                 (scale (subtract mouse (positionValue t)) (1 / Mass (brush t)))) < 1 \<longrightarrow>
      fst (ApplyForce t mouse f) = 0 \<and>
      velocity (snd (ApplyForce t mouse f)) =
        add (velocity t) (scale (subtract mouse (positionValue t)) (1 / Mass (brush t))) \<and>
      positionValue (snd (ApplyForce t mouse f)) = positionValue t \<and>
      angle (snd (ApplyForce t mouse f)) = angle t \<and>
      mousePosition (snd (ApplyForce t mouse f)) = mousePosition t) \<and>
   (let t0 = Reset t' (Vector2 0 0) (BrushInstance 10 0.5 sz);
        r1 = ApplyForce t0 (Vector2 5 0) 1;
        r2 = ApplyForce (snd r1) (Vector2 5 0) 1
    in fst r1 = 0 \<and> velocity (snd r1) = Vector2 0.5 0 \<and> snd r1 \<noteq> t0 \<and> fst r2 = 1 / 4)"
proof (intro conjI impI)
  assume "Mass (brush t) \<noteq> 0"
    and "1 \<le> getSizeSq (subtract mouse (positionValue t))"
    and "getSizeSq (add (velocity t)
                 (scale (subtract mouse (positionValue t)) (1 / Mass (brush t)))) < 1"
  then have "ApplyForce t mouse f =
      (0, t\<lparr>acceleration := Some (scale (subtract mouse (positionValue t)) (1 / Mass (brush t))),
            velocity := add (velocity t)
                          (scale (subtract mouse (positionValue t)) (1 / Mass (brush t)))\<rparr>)"
    by (simp add: ApplyForce_def Let_def thr_defs)
  then show "fst (ApplyForce t mouse f) = 0"
    and "velocity (snd (ApplyForce t mouse f)) =
        add (velocity t) (scale (subtract mouse (positionValue t)) (1 / Mass (brush t)))"
    and "positionValue (snd (ApplyForce t mouse f)) = positionValue t"
    and "angle (snd (ApplyForce t mouse f)) = angle t"
    and "mousePosition (snd (ApplyForce t mouse f)) = mousePosition t"
    by (simp_all add: positionValue_def)
next
  define t0 where "t0 = Reset t' (Vector2 0 0) (BrushInstance 10 0.5 sz)"
  have r1: "ApplyForce t0 (Vector2 5 0) 1 =
              (0, t0\<lparr>acceleration := Some (Vector2 0.5 0), velocity := Vector2 0.5 0\<rparr>)"
    by (simp add: t0_def ApplyForce_def Reset_def positionValue_def Let_def vec_defs thr_defs)
  have v0: "velocity t0 = Vector2 0 0"
    by (simp add: t0_def Reset_def Let_def)
  have ne: "t0\<lparr>acceleration := Some (Vector2 0.5 0), velocity := Vector2 0.5 0\<rparr> \<noteq> t0"
  proof
    assume "t0\<lparr>acceleration := Some (Vector2 0.5 0), velocity := Vector2 0.5 0\<rparr> = t0"
    then have "velocity (t0\<lparr>acceleration := Some (Vector2 0.5 0), velocity := Vector2 0.5 0\<rparr>)
               = velocity t0"
      by simp
    with v0 show False by simp
  qed
  have r2: "fst (ApplyForce (t0\<lparr>acceleration := Some (Vector2 0.5 0), velocity := Vector2 0.5 0\<rparr>)
                  (Vector2 5 0) 1) = 1 / 4"
    by (simp add: t0_def ApplyForce_def Reset_def positionValue_def Let_def vec_defs thr_defs)
  show "let t0 = Reset t' (Vector2 0 0) (BrushInstance 10 0.5 sz);
            r1 = ApplyForce t0 (Vector2 5 0) 1;
            r2 = ApplyForce (snd r1) (Vector2 5 0) 1
        in fst r1 = 0 \<and> velocity (snd r1) = Vector2 0.5 0 \<and> snd r1 \<noteq> t0 \<and> fst r2 = 1 / 4"
    unfolding Let_def t0_def [symmetric] using r1 ne r2 by simp
qed

text \<open>
  The first part of C10 at the tip Reset at (0,0) with mass 10 and friction 0.5 and the
  target (5,0): the force is 25, the velocity would be (0.5,0).
\<close>

theorem C10_witness:
  "Mass (brush (Reset (newBrushTip True) (Vector2 0 0) (BrushInstance 10 0.5 3))) \<noteq> 0 \<and>
   1 \<le> getSizeSq (subtract (Vector2 5 0)
          (positionValue (Reset (newBrushTip True) (Vector2 0 0) (BrushInstance 10 0.5 3)))) \<and>
   getSizeSq (add (velocity (Reset (newBrushTip True) (Vector2 0 0) (BrushInstance 10 0.5 3)))
                (scale (subtract (Vector2 5 0)
                   (positionValue (Reset (newBrushTip True) (Vector2 0 0) (BrushInstance 10 0.5 3))))
                   (1 / Mass (brush (Reset (newBrushTip True) (Vector2 0 0)
                                      (BrushInstance 10 0.5 3)))))) < 1 \<and>
   fst (ApplyForce (Reset (newBrushTip True) (Vector2 0 0) (BrushInstance 10 0.5 3))
          (Vector2 5 0) 1) = 0 \<and>
   velocity (snd (ApplyForce (Reset (newBrushTip True) (Vector2 0 0) (BrushInstance 10 0.5 3))
          (Vector2 5 0) 1)) = Vector2 0.5 0"
proof -
  let ?t = "Reset (newBrushTip True) (Vector2 0 0) (BrushInstance 10 0.5 3)"
  have h1: "1 \<le> getSizeSq (subtract (Vector2 5 0) (positionValue ?t))"
    by (simp add: tip_defs vec_defs)
  have h2: "getSizeSq (add (velocity ?t)
                (scale (subtract (Vector2 5 0) (positionValue ?t)) (1 / Mass (brush ?t)))) < 1"
    by (simp add: tip_defs vec_defs)
  have h0: "Mass (brush ?t) \<noteq> 0"
    by (simp add: tip_defs)
  from C10_velocity_accumulates_below_threshold [of ?t "Vector2 5 0" 1, THEN conjunct1] h0 h1 h2
  have "fst (ApplyForce ?t (Vector2 5 0) 1) = 0 \<and>
        velocity (snd (ApplyForce ?t (Vector2 5 0) 1)) =
          add (velocity ?t) (scale (subtract (Vector2 5 0) (positionValue ?t)) (1 / Mass (brush ?t)))"
    by blast
  moreover have "add (velocity ?t)
      (scale (subtract (Vector2 5 0) (positionValue ?t)) (1 / Mass (brush ?t))) = Vector2 0.5 0"
    by (simp add: tip_defs vec_defs)
  ultimately show ?thesis using h0 h1 h2 by simp
qed

subsection \<open>Pressure interpolation\<close>

text \<open>
  C4: with \<open>d1\<close> the distance from the position to the previous position and \<open>d2\<close>
  the distance from the position to the last raw pointer position, interpolatePressure
  returns the raw pressure when both are 0, and otherwise
  \<open>(d1 / (d1 + d2)) * (rawPressure - previousPressure) + previousPressure\<close>.
\<close>

theorem C4_interpolatePressure:
  "(distanceTo (positionValue t) (previousPositionValue t) = 0 \<and>
    distanceTo (positionValue t) (mousePosition t) = 0 \<longrightarrow>
      interpolatePressure t rawPressure = rawPressure) \<and>
   (\<not> (distanceTo (positionValue t) (previousPositionValue t) = 0 \<and>
       distanceTo (positionValue t) (mousePosition t) = 0) \<longrightarrow>
      interpolatePressure t rawPressure =
        (distanceTo (positionValue t) (previousPositionValue t) /
           (distanceTo (positionValue t) (previousPositionValue t) +
            distanceTo (positionValue t) (mousePosition t)))
          * (rawPressure - previousPressure t) + previousPressure t)"
  by (simp add: interpolatePressure_def Let_def)

text \<open>
  Both cases of C4: on the tip just Reset at (0,0) all three points coincide and the raw
  pressure 0.7 comes back; after one step towards (2,0) with mass 1 and friction 0.5 the
  tip is at (1,0), at distance 1 from both other points, and the raw pressure 1 is
  blended half-way with the previous pressure -1.
\<close>

theorem C4_witness:
  "distanceTo (positionValue (Reset (newBrushTip True) (Vector2 0 0) (BrushInstance 1 0.5 3)))
     (previousPositionValue (Reset (newBrushTip True) (Vector2 0 0) (BrushInstance 1 0.5 3))) = 0 \<and>
   distanceTo (positionValue (Reset (newBrushTip True) (Vector2 0 0) (BrushInstance 1 0.5 3)))
     (mousePosition (Reset (newBrushTip True) (Vector2 0 0) (BrushInstance 1 0.5 3))) = 0 \<and>
   interpolatePressure (Reset (newBrushTip True) (Vector2 0 0) (BrushInstance 1 0.5 3)) 0.7 = 0.7 \<and>
   distanceTo
     (positionValue (snd (ApplyForce (Reset (newBrushTip True) (Vector2 0 0) (BrushInstance 1 0.5 3))
                       (Vector2 2 0) 1)))
     (previousPositionValue (snd (ApplyForce (Reset (newBrushTip True) (Vector2 0 0)
                       (BrushInstance 1 0.5 3)) (Vector2 2 0) 1))) = 1 \<and>
   interpolatePressure
     (snd (ApplyForce (Reset (newBrushTip True) (Vector2 0 0) (BrushInstance 1 0.5 3))
            (Vector2 2 0) 1)) 1 = 0"
proof -
  let ?t = "Reset (newBrushTip True) (Vector2 0 0) (BrushInstance 1 0.5 3)"
  let ?u = "snd (ApplyForce ?t (Vector2 2 0) 1)"
  have a1: "distanceTo (positionValue ?t) (previousPositionValue ?t) = 0"
    by (simp add: tip_defs vec_defs distanceTo_def getSize_def)
  have a2: "distanceTo (positionValue ?t) (mousePosition ?t) = 0"
    by (simp add: tip_defs vec_defs distanceTo_def getSize_def)
  have b1: "distanceTo (positionValue ?u) (previousPositionValue ?u) = 1"
    by (simp add: tip_defs vec_defs thr_defs distanceTo_def getSize_def)
  have b2: "distanceTo (positionValue ?u) (mousePosition ?u) = 1"
    by (simp add: tip_defs vec_defs thr_defs distanceTo_def getSize_def)
  have b3: "previousPressure ?u = - 1"
    by (simp add: tip_defs vec_defs thr_defs)
  from C4_interpolatePressure [of ?t "0.7"] a1 a2
  have "interpolatePressure ?t 0.7 = 0.7" by blast
  moreover from C4_interpolatePressure [of ?u 1] b1 b2 b3
  have "interpolatePressure ?u 1 = 0" by simp
  ultimately show ?thesis using a1 a2 b1 by simp
qed

subsection \<open>The previous position\<close>

lemma getRadius_fields:
  "angle (snd (getRadius t pr sp)) = angle t"
  "firstSegment (snd (getRadius t pr sp)) = firstSegment t"
  "velocity (snd (getRadius t pr sp)) = velocity t"
  "brush (snd (getRadius t pr sp)) = brush t"
  "cells (snd (getRadius t pr sp)) = cells t"
  "position (snd (getRadius t pr sp)) = position t"
  "previousPosition (snd (getRadius t pr sp)) = position t"
  "startPosition (snd (getRadius t pr sp)) = startPosition t"
  "mousePosition (snd (getRadius t pr sp)) = mousePosition t"
  by (simp_all add: getRadius_def Let_def)

text \<open>
  After \<open>getRadius\<close> the previous position is the position object itself, and
  \<open>ApplyForce\<close> keeps both references: whatever the tip does next, the two read the same
  vector.
\<close>

lemma previousPosition_shares_position:
  "previousPositionValue (snd (ApplyForce (snd (getRadius t pr sp)) mouse f)) =
   positionValue (snd (ApplyForce (snd (getRadius t pr sp)) mouse f))"
  by (simp add: previousPositionValue_def positionValue_def ApplyForce_refs getRadius_fields)

text \<open>
  C3 says that after getRadius the previous position keeps the value the position had at
  that call, also when ApplyForce moves the brush afterwards. The source does not do
  that: on a tip Reset at (0,0) with mass 5 and friction 0.5, getRadius is called at the
  position (0,0), ApplyForce towards (10,0) moves the tip to (1,0), and the previous
  position then reads (1,0), at distance 0 from the position instead of 1.
\<close>

theorem C3_previousPosition_follows_position:
  "positionValue (snd (getRadius (Reset (newBrushTip True) (Vector2 0 0) (BrushInstance 5 0.5 3)) 1 0))
     = Vector2 0 0 \<and>
   positionValue (snd (ApplyForce
       (snd (getRadius (Reset (newBrushTip True) (Vector2 0 0) (BrushInstance 5 0.5 3)) 1 0))
       (Vector2 10 0) 1)) = Vector2 1 0 \<and>
   previousPositionValue (snd (ApplyForce
       (snd (getRadius (Reset (newBrushTip True) (Vector2 0 0) (BrushInstance 5 0.5 3)) 1 0))
       (Vector2 10 0) 1)) = Vector2 1 0 \<and>
   distanceTo
     (positionValue (snd (ApplyForce
       (snd (getRadius (Reset (newBrushTip True) (Vector2 0 0) (BrushInstance 5 0.5 3)) 1 0))
       (Vector2 10 0) 1)))
     (previousPositionValue (snd (ApplyForce
       (snd (getRadius (Reset (newBrushTip True) (Vector2 0 0) (BrushInstance 5 0.5 3)) 1 0))
       (Vector2 10 0) 1))) = 0"
proof -
  let ?t = "snd (getRadius (Reset (newBrushTip True) (Vector2 0 0) (BrushInstance 5 0.5 3)) 1 0)"
  have p0: "positionValue ?t = Vector2 0 0"
    by (simp add: positionValue_def getRadius_fields) (simp add: Reset_def newBrushTip_def Let_def)
  have v0: "velocity ?t = Vector2 0 0" and b0: "brush ?t = BrushInstance 5 0.5 3"
    by (simp_all add: getRadius_fields) (simp_all add: Reset_def Let_def)
  have th: "1 \<le> getSizeSq (subtract (Vector2 10 0) (positionValue ?t))"
    "1 \<le> getSizeSq (add (velocity ?t)
            (scale (subtract (Vector2 10 0) (positionValue ?t)) (1 / Mass (brush ?t))))"
    unfolding p0 v0 b0 by (simp_all add: vec_defs)
  have p1: "positionValue (snd (ApplyForce ?t (Vector2 10 0) 1)) = Vector2 1 0"
    unfolding ApplyForce_step(3) [OF th] unfolding p0 v0 b0 by (simp add: vec_defs)
  have q1: "previousPositionValue (snd (ApplyForce ?t (Vector2 10 0) 1)) = Vector2 1 0"
    unfolding previousPosition_shares_position by (rule p1)
  show ?thesis
    unfolding p0 p1 q1 by (simp add: distanceTo_def getSize_def vec_defs)
qed

subsection \<open>The calls a stroke makes on its path\<close>

lemma received_extendI:
  "map methodOf xs = ms \<Longrightarrow>
   \<exists>calls. p\<lparr>received := received p @ xs\<rparr> = p\<lparr>received := received p @ calls\<rparr> \<and>
           map methodOf calls = ms"
  by blast

lemma Draw_accepting_parts:
  assumes "angle t = Some a" and "\<forall>c. \<not> rejects p c"
  shows "fst (Draw t p pressure) = None"
    and "firstSegment (fst (snd (Draw t p pressure))) = False"
    and "\<exists>calls. snd (snd (Draw t p pressure)) = p\<lparr>received := received p @ calls\<rparr> \<and>
           map methodOf calls = (if firstSegment t then [InitPathM] else []) @ [ExtendPathM, DrawM]"
  using assms
  by (auto simp add: Draw_def Let_def split_beta getRadius_fields path_call_def
      intro!: received_extendI)

lemma Draw_accepting:
  assumes "angle t = Some a" and "\<forall>c. \<not> rejects p c"
  shows "\<exists>t' calls. Draw t p pressure = (None, t', p\<lparr>received := received p @ calls\<rparr>) \<and>
           map methodOf calls = (if firstSegment t then [InitPathM] else []) @ [ExtendPathM, DrawM] \<and>
           firstSegment t' = False"
proof -
  from Draw_accepting_parts(3) [OF assms, of pressure] obtain calls where
    c: "snd (snd (Draw t p pressure)) = p\<lparr>received := received p @ calls\<rparr>"
    "map methodOf calls = (if firstSegment t then [InitPathM] else []) @ [ExtendPathM, DrawM]"
    by blast
  have "Draw t p pressure =
          (fst (Draw t p pressure), fst (snd (Draw t p pressure)), snd (snd (Draw t p pressure)))"
    by simp
  with c Draw_accepting_parts(1,2) [OF assms, of pressure]
  have "Draw t p pressure =
          (None, fst (snd (Draw t p pressure)), p\<lparr>received := received p @ calls\<rparr>)"
    by simp
  with c(2) Draw_accepting_parts(2) [OF assms, of pressure] show ?thesis
    by blast
qed

lemma strokeDraws_methods:
  assumes "strokeMoves t p steps" and "\<forall>c. \<not> rejects p c"
  shows "\<exists>t' calls. strokeDraws t p steps = (None, t', p\<lparr>received := received p @ calls\<rparr>) \<and>
           map methodOf calls =
               (if firstSegment t \<and> steps \<noteq> [] then [InitPathM] else []) @
               concat (replicate (length steps) [ExtendPathM, DrawM])"
  using assms
proof (induction steps arbitrary: t p)
  case Nil
  then show ?case by simp
next
  case (Cons s steps)
  obtain mouse f pressure where s: "s = (mouse, f, pressure)"
    by (cases s)
  obtain d t1 where af: "ApplyForce t mouse f = (d, t1)"
    by (cases "ApplyForce t mouse f")
  from Cons.prems(1) s af have d: "d \<noteq> 0"
    by simp
  from af d ApplyForce_moved_angle [of t mouse f] obtain a where a: "angle t1 = Some a"
    by auto
  from af ApplyForce_firstSegment [of t mouse f] have fs: "firstSegment t1 = firstSegment t"
    by simp
  from Draw_accepting [OF a Cons.prems(2), of pressure]
  obtain t2 calls2 where dr: "Draw t1 p pressure = (None, t2, p\<lparr>received := received p @ calls2\<rparr>)"
    and m2: "map methodOf calls2 = (if firstSegment t1 then [InitPathM] else []) @ [ExtendPathM, DrawM]"
    and f2: "firstSegment t2 = False"
    by blast
  let ?p2 = "p\<lparr>received := received p @ calls2\<rparr>"
  from Cons.prems(1) s af dr have mv: "strokeMoves t2 ?p2 steps"
    by simp
  from Cons.prems(2) have rj: "\<forall>c. \<not> rejects ?p2 c"
    by simp
  from Cons.IH [OF mv rj] obtain t' calls' where
    sd: "strokeDraws t2 ?p2 steps = (None, t', ?p2\<lparr>received := received ?p2 @ calls'\<rparr>)" and
    m': "map methodOf calls' =
               (if firstSegment t2 \<and> steps \<noteq> [] then [InitPathM] else []) @
               concat (replicate (length steps) [ExtendPathM, DrawM])"
    by blast
  from s af dr sd
  have "strokeDraws t p (s # steps) = (None, t', p\<lparr>received := received p @ (calls2 @ calls')\<rparr>)"
    by simp
  moreover from m' m2 f2 fs
  have "map methodOf (calls2 @ calls') =
               (if firstSegment t \<and> s # steps \<noteq> [] then [InitPathM] else []) @
               concat (replicate (length (s # steps)) [ExtendPathM, DrawM])"
    by simp
  ultimately show ?case
    by blast
qed

text \<open>
  C2: take a tip after Reset and a stroke of any number of steps, each an ApplyForce that
  returns non-zero followed by a Draw, on a path whose methods do not throw. Then no Draw
  ends in an exception, and the calls the path receives during the stroke are, by method:
  nothing for the empty stroke, and otherwise one InitPath followed, for every Draw of
  the stroke, by one ExtendPath and one Draw. So InitPath comes exactly once, in the
  first Draw and before any ExtendPath, and never again.
\<close>

theorem C2_InitPath_once_then_ExtendPath_Draw:
  assumes "strokeMoves (Reset t pos b) p steps" and "\<forall>c. \<not> rejects p c"
  shows "\<exists>t' calls.
           strokeDraws (Reset t pos b) p steps = (None, t', p\<lparr>received := received p @ calls\<rparr>) \<and>
           map methodOf calls =
             (if steps = [] then []
              else InitPathM # concat (replicate (length steps) [ExtendPathM, DrawM]))"
proof -
  have fs: "firstSegment (Reset t pos b)"
    by (simp add: Reset_def Let_def)
  from strokeDraws_methods [OF assms] obtain t' calls where
    sd: "strokeDraws (Reset t pos b) p steps = (None, t', p\<lparr>received := received p @ calls\<rparr>)"
    and m: "map methodOf calls =
               (if firstSegment (Reset t pos b) \<and> steps \<noteq> [] then [InitPathM] else []) @
               concat (replicate (length steps) [ExtendPathM, DrawM])"
    by blast
  from m fs have "map methodOf calls =
             (if steps = [] then []
              else InitPathM # concat (replicate (length steps) [ExtendPathM, DrawM]))"
    by simp
  with sd show ?thesis
    by blast
qed

text \<open>
  A stroke of two steps towards (10,0) on a tip Reset at (0,0) with mass 5 and friction
  0.5: the two ApplyForce return 1 and 1.96, and the path receives InitPath, ExtendPath,
  Draw, ExtendPath, Draw.
\<close>

theorem C2_witness:
  "strokeMoves (Reset (newBrushTip True) (Vector2 0 0) (BrushInstance 5 0.5 3))
     \<lparr>received = [], rejects = (\<lambda>c. False)\<rparr>
     [(Vector2 10 0, 1, 1), (Vector2 10 0, 1, 1)] \<and>
   (\<forall>c. \<not> rejects \<lparr>received = [], rejects = (\<lambda>c. False)\<rparr> c) \<and>
   (\<exists>t' calls.
      strokeDraws (Reset (newBrushTip True) (Vector2 0 0) (BrushInstance 5 0.5 3))
        \<lparr>received = [], rejects = (\<lambda>c. False)\<rparr>
        [(Vector2 10 0, 1, 1), (Vector2 10 0, 1, 1)]
        = (None, t', \<lparr>received = calls, rejects = (\<lambda>c. False)\<rparr>) \<and>
      map methodOf calls = [InitPathM, ExtendPathM, DrawM, ExtendPathM, DrawM])"
proof -
  let ?t = "Reset (newBrushTip True) (Vector2 0 0) (BrushInstance 5 0.5 3)"
  let ?p = "\<lparr>received = [], rejects = (\<lambda>c. False)\<rparr>"
  let ?steps = "[(Vector2 10 0, 1, 1), (Vector2 10 0, 1, 1)] :: (Vector2 \<times> real \<times> real) list"
  have mv: "strokeMoves ?t ?p ?steps"
    by (simp add: tip_defs vec_defs thr_defs Draw_def getRadius_def split_beta path_call_def)
  have rj: "\<forall>c. \<not> rejects ?p c"
    by simp
  from C2_InitPath_once_then_ExtendPath_Draw [OF mv rj]
  obtain t' calls where
    "strokeDraws ?t ?p ?steps = (None, t', ?p\<lparr>received := received ?p @ calls\<rparr>)"
    "map methodOf calls = InitPathM # concat (replicate (length ?steps) [ExtendPathM, DrawM])"
    by auto
  then have "strokeDraws ?t ?p ?steps = (None, t', \<lparr>received = calls, rejects = (\<lambda>c. False)\<rparr>) \<and>
      map methodOf calls = [InitPathM, ExtendPathM, DrawM, ExtendPathM, DrawM]"
    by (simp add: numeral_2_eq_2)
  then have ex: "\<exists>t' calls.
      strokeDraws ?t ?p ?steps = (None, t', \<lparr>received = calls, rejects = (\<lambda>c. False)\<rparr>) \<and>
      map methodOf calls = [InitPathM, ExtendPathM, DrawM, ExtendPathM, DrawM]"
    by - (rule exI, rule exI, assumption)
  show ?thesis
    by (rule conjI [OF mv conjI [OF rj ex]])
qed

section \<open>Results about the simulator\<close>

subsection \<open>Brush profiles\<close>

lemma GetBrush_constants:
  "minMass (snd (GetBrush d s)) = minMass d"
  "maxMass (snd (GetBrush d s)) = maxMass d"
  "minFriction (snd (GetBrush d s)) = minFriction d"
  "maxFriction (snd (GetBrush d s)) = maxFriction d"
  "minBrushSize (snd (GetBrush d s)) = minBrushSize d"
  "maxBrushSize (snd (GetBrush d s)) = maxBrushSize d"
  by (simp_all add: GetBrush_def Let_def split: option.split)

lemma GetBrush_interpolate:
  "interpolateMass (snd (GetBrush d s)) = interpolateMass d"
  "interpolateFriction (snd (GetBrush d s)) = interpolateFriction d"
  by (simp_all add: fun_eq_iff interpolateMass_def interpolateFriction_def GetBrush_constants)

lemma GetBrush_profile:
  assumes "brushes_ok d"
  shows "fst (GetBrush d s) = BrushInstance (interpolateMass d s) (interpolateFriction d s) s"
  using assms by (simp add: GetBrush_def brushes_ok_def Let_def split: option.split)

lemma GetBrush_brushes_ok:
  assumes "brushes_ok d"
  shows "brushes_ok (snd (GetBrush d s))"
  unfolding brushes_ok_def GetBrush_interpolate
  using assms by (auto simp add: GetBrush_def brushes_ok_def Let_def split: option.splits)

lemma constructor_brushes_ok:
  "DynaDraw_constructor pf slow mn mx = Inr d \<Longrightarrow> brushes_ok d"
  by (auto simp add: DynaDraw_constructor_def brushes_ok_def)

text \<open>
  C5: for every size \<open>s\<close>, the profile that the cache returns has
  \<open>mass = minMass + (maxMass - minMass) * t\<close> and
  \<open>friction = maxFriction - (maxFriction - minFriction) * t\<close> with
  \<open>t = (s - minBrushSize) / (maxBrushSize - minBrushSize)\<close>, without clamping. The cache
  is one that \<open>GetBrush\<close> has filled, and stays so; the two sizes are taken to differ,
  a division by zero being outside the model.
\<close>

theorem C5_profile_is_linear_interpolation:
  assumes "brushes_ok d" and "maxBrushSize d \<noteq> minBrushSize d"
  shows "Mass (fst (GetBrush d s)) =
           minMass d + (maxMass d - minMass d)
             * ((s - minBrushSize d) / (maxBrushSize d - minBrushSize d)) \<and>
         Friction (fst (GetBrush d s)) =
           maxFriction d - (maxFriction d - minFriction d)
             * ((s - minBrushSize d) / (maxBrushSize d - minBrushSize d)) \<and>
         Size (fst (GetBrush d s)) = s \<and>
         brushes_ok (snd (GetBrush d s))"
  using assms
  by (simp add: GetBrush_profile GetBrush_brushes_ok interpolateMass_def interpolateFriction_def)

text \<open>
  Scenario C: a simulator constructed with sizes 5 to 20 (and the masses 1 to 10 of the
  source) gives the size 10 the mass 4.
\<close>

theorem C5_witness:
  "brushes_ok (projr (DynaDraw_constructor (\<lambda>n. Inl HostError) False 5 20)) \<and>
   maxBrushSize (projr (DynaDraw_constructor (\<lambda>n. Inl HostError) False 5 20))
     \<noteq> minBrushSize (projr (DynaDraw_constructor (\<lambda>n. Inl HostError) False 5 20)) \<and>
   Mass (fst (GetBrush (projr (DynaDraw_constructor (\<lambda>n. Inl HostError) False 5 20)) 10)) = 4"
proof -
  let ?d = "projr (DynaDraw_constructor (\<lambda>n. Inl HostError) False 5 20)"
  have ok: "brushes_ok ?d"
    by (rule constructor_brushes_ok [of "\<lambda>n. Inl HostError" False 5 20])
       (simp add: DynaDraw_constructor_def)
  have ne: "maxBrushSize ?d \<noteq> minBrushSize ?d"
    by (simp add: DynaDraw_constructor_def)
  from C5_profile_is_linear_interpolation [OF ok ne, of 10]
  have "Mass (fst (GetBrush ?d 10)) =
           minMass ?d + (maxMass ?d - minMass ?d)
             * ((10 - minBrushSize ?d) / (maxBrushSize ?d - minBrushSize ?d))"
    by blast
  also have "\<dots> = 4"
    by (simp add: DynaDraw_constructor_def)
  finally show ?thesis
    using ok ne by blast
qed

subsection \<open>The constructor\<close>

text \<open>
  C9 as stated fails: constructing the simulator with \<open>minBrushSize = 20\<close> and
  \<open>maxBrushSize = 5\<close> raises nothing.
\<close>

theorem C9_counterexample:
  "\<not> isl (DynaDraw_constructor (\<lambda>n. Inl HostError) False 20 5)"
  by (simp add: DynaDraw_constructor_def)

text \<open>
  C9, amended: the constructor checks nothing about the brush sizes. For every pair of
  sizes, also with \<open>maxBrushSize \<le> minBrushSize\<close>, it returns a simulator that holds
  the two sizes as given.
\<close>

theorem C9_constructor_accepts_any_sizes:
  "\<not> isl (DynaDraw_constructor pf slow mn mx) \<and>
   minBrushSize (projr (DynaDraw_constructor pf slow mn mx)) = mn \<and>
   maxBrushSize (projr (DynaDraw_constructor pf slow mn mx)) = mx"
  by (simp add: DynaDraw_constructor_def)

subsection \<open>Samples\<close>

lemma GetBrush_console: "console (snd (GetBrush d s)) = console d"
  by (simp add: GetBrush_def Let_def split: option.split)

lemma StartPath_DynaDraw_console:
  "console (snd (StartPath_DynaDraw d pos pressure)) = console d"
proof (cases "currentBrushSize d")
  case None
  then show ?thesis
    by (simp add: StartPath_DynaDraw_def)
next
  case (Some s)
  obtain b d1 where g: "GetBrush d s = (b, d1)"
    by (cases "GetBrush d s")
  from g GetBrush_console [of d s] have c1: "console d1 = console d"
    by simp
  from g GetBrush_console [of d s] show ?thesis
    using Some c1
    by (simp add: StartPath_DynaDraw_def Let_def split: option.split prod.split)
qed

lemma ObserveCursorMovement_try_console:
  "console (snd (ObserveCursorMovement_try trigger d c)) = console d"
  by (simp add: ObserveCursorMovement_try_def Let_def NextPoint_def EndPath_def
      StartPath_DynaDraw_console split: option.split sum.split)

text \<open>
  C6: whatever the sample and the state of the simulator, and whether or not the path
  factory, the event listeners, the path or the brush tip throw, ObserveCursorMovement
  hands no exception to its caller. An exception of the body is appended to the console
  log, and nothing else is; the assignment to lastState happens in either case.
\<close>

theorem C6_no_exception_leaves_ObserveCursorMovement:
  "fst (ObserveCursorMovement trigger d c) = None \<and>
   console (snd (ObserveCursorMovement trigger d c)) =
     console d @ (case fst (ObserveCursorMovement_try trigger d c) of
                    None \<Rightarrow> [] | Some err \<Rightarrow> [err]) \<and>
   lastState (snd (ObserveCursorMovement trigger d c)) = c"
proof -
  obtain e d1 where b: "ObserveCursorMovement_try trigger d c = (e, d1)"
    by (cases "ObserveCursorMovement_try trigger d c")
  from b ObserveCursorMovement_try_console [of trigger d c] have "console d1 = console d"
    by simp
  with b show ?thesis
    by (cases e) (simp_all add: ObserveCursorMovement_def)
qed

text \<open>
  Four samples whose handling throws, each on a newly constructed simulator: a missing
  sample, a path factory that throws, a listener that throws, and a pen-down before any
  brush size was set. Each time the caller sees no exception and the log holds it.
\<close>

theorem C6_witness:
  "fst (ObserveCursorMovement (\<lambda>p. None)
          (projr (DynaDraw_constructor (\<lambda>n. Inl HostError) False 5 20)) None) = None \<and>
   console (snd (ObserveCursorMovement (\<lambda>p. None)
          (projr (DynaDraw_constructor (\<lambda>n. Inl HostError) False 5 20)) None)) = [TypeError] \<and>
   fst (ObserveCursorMovement (\<lambda>p. None)
          (projr (DynaDraw_constructor (\<lambda>n. Inl HostError) False 5 20))
          (Some (CursorState 0 0 1))) = None \<and>
   console (snd (ObserveCursorMovement (\<lambda>p. None)
          (projr (DynaDraw_constructor (\<lambda>n. Inl HostError) False 5 20))
          (Some (CursorState 0 0 1)))) = [HostError] \<and>
   console (snd (ObserveCursorMovement (\<lambda>p. Some HostError)
          (projr (DynaDraw_constructor (\<lambda>n. Inr \<lparr>received = [], rejects = (\<lambda>c. False)\<rparr>)
                    False 5 20))
          (Some (CursorState 0 0 1)))) = [HostError] \<and>
   console (snd (ObserveCursorMovement (\<lambda>p. None)
          (projr (DynaDraw_constructor (\<lambda>n. Inr \<lparr>received = [], rejects = (\<lambda>c. False)\<rparr>)
                    False 5 20))
          (Some (CursorState 0 0 1)))) = [TypeError]"
proof -
  let ?d = "projr (DynaDraw_constructor (\<lambda>n. Inl HostError) False 5 20)"
  let ?d' = "projr (DynaDraw_constructor (\<lambda>n. Inr \<lparr>received = [], rejects = (\<lambda>c. False)\<rparr>)
                    False 5 20)"
  have t1: "fst (ObserveCursorMovement_try (\<lambda>p. None) ?d None) = Some TypeError"
    by (simp add: ObserveCursorMovement_try_def)
  have t2: "fst (ObserveCursorMovement_try (\<lambda>p. None) ?d (Some (CursorState 0 0 1)))
              = Some HostError"
    by (simp add: ObserveCursorMovement_try_def DynaDraw_constructor_def)
  have t3: "fst (ObserveCursorMovement_try (\<lambda>p. Some HostError) ?d' (Some (CursorState 0 0 1)))
              = Some HostError"
    by (simp add: ObserveCursorMovement_try_def DynaDraw_constructor_def)
  have t4: "fst (ObserveCursorMovement_try (\<lambda>p. None) ?d' (Some (CursorState 0 0 1)))
              = Some TypeError"
    by (simp add: ObserveCursorMovement_try_def DynaDraw_constructor_def StartPath_DynaDraw_def)
  have c0: "console ?d = []" "console ?d' = []"
    by (simp_all add: DynaDraw_constructor_def)
  from C6_no_exception_leaves_ObserveCursorMovement [of "\<lambda>p. None" ?d None]
    C6_no_exception_leaves_ObserveCursorMovement [of "\<lambda>p. None" ?d "Some (CursorState 0 0 1)"]
    C6_no_exception_leaves_ObserveCursorMovement [of "\<lambda>p. Some HostError" ?d'
      "Some (CursorState 0 0 1)"]
    C6_no_exception_leaves_ObserveCursorMovement [of "\<lambda>p. None" ?d' "Some (CursorState 0 0 1)"]
  show ?thesis
    unfolding t1 t2 t3 t4 c0 by simp
qed

subsection \<open>The cache under the operations of the simulator\<close>

text \<open>
  The cache of a new simulator is one that \<open>GetBrush\<close> has filled, and
  \<open>SetBrushSize\<close> and \<open>ObserveCursorMovement\<close> keep it so.
\<close>

lemma brushes_ok_cong:
  assumes "brushes d' = brushes d" "minMass d' = minMass d" "maxMass d' = maxMass d"
    "minFriction d' = minFriction d" "maxFriction d' = maxFriction d"
    "minBrushSize d' = minBrushSize d" "maxBrushSize d' = maxBrushSize d"
  shows "brushes_ok d' = brushes_ok d"
  using assms by (simp add: brushes_ok_def interpolateMass_def interpolateFriction_def)

lemma SetBrushSize_brushes_ok: "brushes_ok d \<Longrightarrow> brushes_ok (SetBrushSize d s)"
  by (simp add: SetBrushSize_def brushes_ok_cong [of "d\<lparr>currentBrushSize := Some s\<rparr>" d])

lemma StartPath_DynaDraw_brushes_ok:
  assumes "brushes_ok d"
  shows "brushes_ok (snd (StartPath_DynaDraw d pos pressure))"
proof (cases "currentBrushSize d")
  case None
  with assms show ?thesis
    by (simp add: StartPath_DynaDraw_def)
next
  case (Some s)
  obtain b d1 where g: "GetBrush d s = (b, d1)"
    by (cases "GetBrush d s")
  from g GetBrush_brushes_ok [OF assms, of s] have ok1: "brushes_ok d1"
    by simp
  have "brushes_ok (snd (StartPath_DynaDraw d pos pressure)) = brushes_ok d1"
    using Some g
    by (intro brushes_ok_cong)
       (simp_all add: StartPath_DynaDraw_def Let_def split: option.split prod.split)
  with ok1 show ?thesis
    by simp
qed

lemma ObserveCursorMovement_brushes_ok:
  assumes "brushes_ok d"
  shows "brushes_ok (snd (ObserveCursorMovement trigger d c))"
proof -
  have t: "brushes_ok (snd (ObserveCursorMovement_try trigger d c))"
  proof (cases "\<exists>x p. c = Some x \<and> 0 < Pressure x \<and>
        (case lastState d of None \<Rightarrow> True | Some l \<Rightarrow> Pressure l = 0) \<and>
        pathFactory d (factoryCalls d) = Inr p \<and> trigger p = None")
    case True
    then obtain x p where h: "c = Some x" "0 < Pressure x"
        "(case lastState d of None \<Rightarrow> True | Some l \<Rightarrow> Pressure l = 0)"
        "pathFactory d (factoryCalls d) = Inr p" "trigger p = None"
      by blast
    let ?d1 = "d\<lparr>factoryCalls := Suc (factoryCalls d), path_DynaDraw := Some p\<rparr>"
    have "brushes_ok ?d1 = brushes_ok d"
      by (intro brushes_ok_cong) simp_all
    with assms have "brushes_ok ?d1"
      by simp
    from StartPath_DynaDraw_brushes_ok [OF this] h show ?thesis
      by (simp add: ObserveCursorMovement_try_def Let_def)
  next
    case False
    have "brushes_ok (snd (ObserveCursorMovement_try trigger d c)) = brushes_ok d"
      using False
      by (intro brushes_ok_cong)
         (auto simp add: ObserveCursorMovement_try_def Let_def NextPoint_def EndPath_def
           split: option.splits sum.splits)
    with assms show ?thesis
      by simp
  qed
  obtain e d1 where b: "ObserveCursorMovement_try trigger d c = (e, d1)"
    by (cases "ObserveCursorMovement_try trigger d c")
  with t have ok1: "brushes_ok d1"
    by simp
  have "brushes_ok (snd (ObserveCursorMovement trigger d c)) = brushes_ok d1"
    using b by (intro brushes_ok_cong) (cases e; simp add: ObserveCursorMovement_def)+
  with ok1 show ?thesis
    by simp
qed

end
